theory Spec2Isabelle
  imports Complex_Main "HOL-Library.AList"
begin

section \<open>JavaScript values reaching the two handlers\<close>

text \<open>
  Both source files treat the request body and the stored orders as values of type
  \<^verbatim>\<open>any\<close>: every field is read through a coercion (\<^verbatim>\<open>String(x)\<close>, \<^verbatim>\<open>Number(x)\<close>,
  \<^verbatim>\<open>x || d\<close>, \<^verbatim>\<open>x ?? d\<close>, \<^verbatim>\<open>!x\<close>). The model therefore keeps the dynamic values and
  writes the coercions out.

  A number is an exact rational or one of the three special values of the language.
  The rounding of IEEE doubles and the sign of zero are not modelled: the handlers
  only add, subtract, multiply and compare.
\<close>

datatype jsnum = Fin rat | NaN | PInf | NInf

fun is_finite :: "jsnum \<Rightarrow> bool" where
  "is_finite (Fin _) = True"
| "is_finite _ = False"


fun js_neg :: "jsnum \<Rightarrow> jsnum" where
  "js_neg (Fin a) = Fin (- a)"
| "js_neg NaN = NaN"
| "js_neg PInf = NInf"
| "js_neg NInf = PInf"

fun js_add :: "jsnum \<Rightarrow> jsnum \<Rightarrow> jsnum" where
  "js_add (Fin a) (Fin b) = Fin (a + b)"
| "js_add NaN _ = NaN"
| "js_add _ NaN = NaN"
| "js_add PInf NInf = NaN"
| "js_add NInf PInf = NaN"
| "js_add PInf _ = PInf"
| "js_add NInf _ = NInf"
| "js_add _ PInf = PInf"
| "js_add _ NInf = NInf"

definition js_sub :: "jsnum \<Rightarrow> jsnum \<Rightarrow> jsnum" where
  "js_sub a b = js_add a (js_neg b)"

text \<open>The sign of a number that is not NaN: \<open>-1\<close>, \<open>0\<close> or \<open>1\<close>.\<close>

fun js_sgn :: "jsnum \<Rightarrow> rat" where
  "js_sgn (Fin a) = sgn a"
| "js_sgn PInf = 1"
| "js_sgn NInf = - 1"
| "js_sgn NaN = 0"

definition js_mul :: "jsnum \<Rightarrow> jsnum \<Rightarrow> jsnum" where
  "js_mul a b =
     (case (a, b) of
        (Fin x, Fin y) \<Rightarrow> Fin (x * y)
      | _ \<Rightarrow>
          if a = NaN \<or> b = NaN \<or> js_sgn a * js_sgn b = 0 then NaN
          else if 0 < js_sgn a * js_sgn b then PInf else NInf)"

text \<open>\<^verbatim>\<open>a < b\<close> and \<^verbatim>\<open>a <= b\<close> on numbers: false as soon as one side is NaN.\<close>

fun js_lt :: "jsnum \<Rightarrow> jsnum \<Rightarrow> bool" where
  "js_lt (Fin a) (Fin b) = (a < b)"
| "js_lt NaN _ = False"
| "js_lt _ NaN = False"
| "js_lt PInf _ = False"
| "js_lt _ NInf = False"
| "js_lt NInf _ = True"
| "js_lt _ PInf = True"

fun js_le :: "jsnum \<Rightarrow> jsnum \<Rightarrow> bool" where
  "js_le (Fin a) (Fin b) = (a \<le> b)"
| "js_le NaN _ = False"
| "js_le _ NaN = False"
| "js_le NInf _ = True"
| "js_le _ PInf = True"
| "js_le PInf _ = False"
| "js_le _ NInf = False"

text \<open>\<^verbatim>\<open>Math.max(a, b)\<close>: NaN when an argument is NaN.\<close>

definition Math_max :: "jsnum \<Rightarrow> jsnum \<Rightarrow> jsnum" where
  "Math_max a b =
     (if a = NaN \<or> b = NaN then NaN else if js_lt a b then b else a)"

datatype jsval =
    JUndefined
  | JNull
  | JBool bool
  | JNum jsnum
  | JStr string
  | JArr "jsval list"
  | JObj "(string \<times> jsval) list"

text \<open>
  An object is the list of its properties; a lookup takes the first binding of a key.
  \<open>truthy\<close> is the test of \<^verbatim>\<open>if (x)\<close>, \<^verbatim>\<open>!x\<close> and \<^verbatim>\<open>x || d\<close>.
\<close>

fun truthy :: "jsval \<Rightarrow> bool" where
  "truthy JUndefined = False"
| "truthy JNull = False"
| "truthy (JBool b) = b"
| "truthy (JNum n) = (n \<noteq> NaN \<and> n \<noteq> Fin 0)"
| "truthy (JStr s) = (s \<noteq> [])"
| "truthy (JArr _) = True"
| "truthy (JObj _) = True"

definition js_or :: "jsval \<Rightarrow> jsval \<Rightarrow> jsval" where
  "js_or a d = (if truthy a then a else d)"

definition nullish :: "jsval \<Rightarrow> bool" where
  "nullish v = (v = JUndefined \<or> v = JNull)"

definition js_nullish :: "jsval \<Rightarrow> jsval \<Rightarrow> jsval" where
  "js_nullish a d = (if nullish a then d else a)"

text \<open>
  \<^verbatim>\<open>v?.k\<close> and, on a value that is neither null nor undefined, \<^verbatim>\<open>v.k\<close>, for the
  property names the handlers read (none of them is a built-in property of a string,
  a number or an array). The handlers read \<^verbatim>\<open>v.k\<close> only where \<^verbatim>\<open>v\<close> is known to be
  neither null nor undefined.
\<close>

fun get_prop :: "jsval \<Rightarrow> string \<Rightarrow> jsval" where
  "get_prop (JObj kvs) k = (case map_of kvs k of Some v \<Rightarrow> v | None \<Rightarrow> JUndefined)"
| "get_prop _ k = JUndefined"

fun set_prop :: "jsval \<Rightarrow> string \<Rightarrow> jsval \<Rightarrow> jsval" where
  "set_prop (JObj kvs) k v = JObj (AList.update k v kvs)"
| "set_prop x k v = x"

fun isArray :: "jsval \<Rightarrow> bool" where
  "isArray (JArr _) = True"
| "isArray _ = False"

fun elems :: "jsval \<Rightarrow> jsval list" where
  "elems (JArr xs) = xs"
| "elems _ = []"

subsection \<open>Decimal digits\<close>

definition digit_char :: "nat \<Rightarrow> char" where
  "digit_char d = ''0123456789'' ! (d mod 10)"

function dec_nat :: "nat \<Rightarrow> string" where
  "dec_nat n = (if n < 10 then [digit_char n] else dec_nat (n div 10) @ [digit_char (n mod 10)])"
  by pat_completeness auto
termination
  by (relation "measure id") auto

declare dec_nat.simps [simp del]

text \<open>
  \<^verbatim>\<open>String(n)\<close> for a number: the digits \<open>s\<close> of the shortest decimal that denotes
  it, and the position \<open>n\<close> of the decimal point, laid out as the language does
  (plain digits up to \<open>10^21\<close>, a leading \<open>0.\<close> down to \<open>10^-6\<close>, exponent notation
  beyond). A rational whose expansion does not end within 30 decimal places is cut
  there; no such number arises from decimal inputs by \<open>+\<close>, \<open>-\<close> and \<open>*\<close>.
\<close>

fun find_scale :: "nat \<Rightarrow> nat \<Rightarrow> nat \<Rightarrow> nat" where
  "find_scale b e 0 = e"
| "find_scale b e (Suc fuel) = (if b dvd 10 ^ e then e else find_scale b (Suc e) fuel)"

definition strip_zeros :: "string \<Rightarrow> string" where
  "strip_zeros ds = rev (dropWhile (\<lambda>c. c = CHR ''0'') (rev ds))"

definition layout_digits :: "string \<Rightarrow> int \<Rightarrow> string" where
  "layout_digits ds n =
     (let k = int (length ds) in
      if k \<le> n \<and> n \<le> 21 then ds @ replicate (nat (n - k)) CHR ''0''
      else if 0 < n \<and> n \<le> 21 then take (nat n) ds @ ''.'' @ drop (nat n) ds
      else if - 6 < n \<and> n \<le> 0 then ''0.'' @ replicate (nat (- n)) CHR ''0'' @ ds
      else
        (let ex = (if n - 1 < 0 then ''-'' else ''+'') @ dec_nat (nat \<bar>n - 1\<bar>)
         in if k = 1 then ds @ ''e'' @ ex
            else take 1 ds @ ''.'' @ drop 1 ds @ ''e'' @ ex))"

definition pos_rat_toString :: "rat \<Rightarrow> string" where
  "pos_rat_toString q =
     (let (a, b) = quotient_of q;
          e = find_scale (nat b) 0 30;
          N = (nat a * 10 ^ e) div nat b;
          D = dec_nat N
      in if N = 0 then ''0''
         else layout_digits (strip_zeros D) (int (length D) - int e))"

fun Number_toString :: "jsnum \<Rightarrow> string" where
  "Number_toString NaN = ''NaN''"
| "Number_toString PInf = ''Infinity''"
| "Number_toString NInf = ''-Infinity''"
| "Number_toString (Fin q) =
     (if q = 0 then ''0''
      else if q < 0 then ''-'' @ pos_rat_toString (- q)
      else pos_rat_toString q)"

text \<open>
  \<^verbatim>\<open>Number(s)\<close> for a string: white space is trimmed, the empty string is \<open>0\<close>,
  then a binary, octal or hexadecimal integer, or a signed decimal with an optional
  fraction and exponent, or a signed \<^verbatim>\<open>Infinity\<close>; anything else is NaN. Strings are
  byte strings, so only the ASCII white space is trimmed.
\<close>

definition is_ws :: "char \<Rightarrow> bool" where
  "is_ws c = (c \<in> set [CHR 0x20, CHR 0x09, CHR 0x0A, CHR 0x0B, CHR 0x0C, CHR 0x0D])"

definition trim :: "string \<Rightarrow> string" where
  "trim s = rev (dropWhile is_ws (rev (dropWhile is_ws s)))"

definition digit_val :: "char \<Rightarrow> nat option" where
  "digit_val c =
     (let n = (of_char c :: nat) in
      if 48 \<le> n \<and> n \<le> 57 then Some (n - 48)
      else if 97 \<le> n \<and> n \<le> 102 then Some (n - 87)
      else if 65 \<le> n \<and> n \<le> 70 then Some (n - 55)
      else None)"

definition is_digit :: "nat \<Rightarrow> char \<Rightarrow> bool" where
  "is_digit base c = (case digit_val c of Some d \<Rightarrow> d < base | None \<Rightarrow> False)"

definition digits_val :: "nat \<Rightarrow> string \<Rightarrow> nat" where
  "digits_val base cs = foldl (\<lambda>acc c. acc * base + (case digit_val c of Some d \<Rightarrow> d | None \<Rightarrow> 0)) 0 cs"

definition parse_nat :: "nat \<Rightarrow> string \<Rightarrow> nat option" where
  "parse_nat base cs =
     (if cs \<noteq> [] \<and> list_all (is_digit base) cs then Some (digits_val base cs) else None)"

definition take_sign :: "string \<Rightarrow> bool \<times> string" where
  "take_sign s =
     (case s of
        c # r \<Rightarrow> if c = CHR ''-'' then (True, r) else if c = CHR ''+'' then (False, r) else (False, s)
      | [] \<Rightarrow> (False, s))"

definition parse_exponent :: "string \<Rightarrow> int option" where
  "parse_exponent r =
     (case r of
        [] \<Rightarrow> Some 0
      | c # r' \<Rightarrow>
          if c = CHR ''e'' \<or> c = CHR ''E'' then
            (let (neg, ds) = take_sign r' in
             case parse_nat 10 ds of
               Some n \<Rightarrow> Some (if neg then - int n else int n)
             | None \<Rightarrow> None)
          else None)"

definition parse_decimal :: "string \<Rightarrow> rat option" where
  "parse_decimal r =
     (let ip = takeWhile (is_digit 10) r;
          r1 = dropWhile (is_digit 10) r;
          dot = (r1 \<noteq> [] \<and> hd r1 = CHR ''.'');
          fp = (if dot then takeWhile (is_digit 10) (tl r1) else []);
          r2 = (if dot then dropWhile (is_digit 10) (tl r1) else r1)
      in if ip = [] \<and> fp = [] then None
         else
           (case parse_exponent r2 of
              None \<Rightarrow> None
            | Some ex \<Rightarrow>
                Some (of_nat (digits_val 10 (ip @ fp)) * 10 powi (ex - int (length fp)))))"

definition radix_prefix :: "string \<Rightarrow> (nat \<times> string) option" where
  "radix_prefix s =
     (case s of
        c0 # c1 # r \<Rightarrow>
          if c0 \<noteq> CHR ''0'' then None
          else if c1 = CHR ''x'' \<or> c1 = CHR ''X'' then Some (16, r)
          else if c1 = CHR ''o'' \<or> c1 = CHR ''O'' then Some (8, r)
          else if c1 = CHR ''b'' \<or> c1 = CHR ''B'' then Some (2, r)
          else None
      | _ \<Rightarrow> None)"

definition StringToNumber :: "string \<Rightarrow> jsnum" where
  "StringToNumber str =
     (let s = trim str in
      if s = [] then Fin 0
      else
        (case radix_prefix s of
           Some (base, r) \<Rightarrow>
             (case parse_nat base r of Some n \<Rightarrow> Fin (of_nat n) | None \<Rightarrow> NaN)
         | None \<Rightarrow>
             (let (neg, r) = take_sign s in
              if r = ''Infinity'' then (if neg then NInf else PInf)
              else
                (case parse_decimal r of
                   Some q \<Rightarrow> Fin (if neg then - q else q)
                 | None \<Rightarrow> NaN))))"

subsection \<open>The coercions \<^verbatim>\<open>String(v)\<close> and \<^verbatim>\<open>Number(v)\<close>\<close>

fun join_comma :: "string list \<Rightarrow> string" where
  "join_comma [] = []"
| "join_comma [s] = s"
| "join_comma (s # t # ss) = s @ '','' @ join_comma (t # ss)"

fun String_js :: "jsval \<Rightarrow> string" where
  "String_js JUndefined = ''undefined''"
| "String_js JNull = ''null''"
| "String_js (JBool b) = (if b then ''true'' else ''false'')"
| "String_js (JNum n) = Number_toString n"
| "String_js (JStr s) = s"
| "String_js (JArr xs) =
     join_comma (map (\<lambda>x. if x = JNull \<or> x = JUndefined then [] else String_js x) xs)"
| "String_js (JObj kvs) = ''[object Object]''"

fun Number_js :: "jsval \<Rightarrow> jsnum" where
  "Number_js JUndefined = NaN"
| "Number_js JNull = Fin 0"
| "Number_js (JBool b) = (if b then Fin 1 else Fin 0)"
| "Number_js (JNum n) = n"
| "Number_js (JStr s) = StringToNumber s"
| "Number_js (JArr xs) = StringToNumber (String_js (JArr xs))"
| "Number_js (JObj kvs) = NaN"

section \<open>Requests, responses and the two stores\<close>

text \<open>
  A handler receives the method and the parsed body of the request and answers with
  \<^verbatim>\<open>res.status(c).json(v)\<close>. A handler of the model returns the response together
  with the store after the call. The \<^verbatim>\<open>catch\<close> block of a handler answers 500 with the
  message of the error; the errors that the handlers throw themselves are the two
  \<^verbatim>\<open>... is null\<close> checks of part_000, and they are branches of the model. Both stores
  put the time of the server where the handler asks for it; the model takes that time
  from outside, as a number of milliseconds.
\<close>

datatype request = Request (req_method: string) (req_body: jsval)

datatype response = Response (res_status: nat) (res_json: jsval)

definition error_json :: "string \<Rightarrow> jsval" where
  "error_json msg = JObj [(''error'', JStr msg)]"

definition num :: "rat \<Rightarrow> jsval" where
  "num q = JNum (Fin q)"

subsection \<open>The tree store of \<^verbatim>\<open>src/unnamed/part_000\<close>\<close>

text \<open>
  The realtime database is one tree of values, here the value at its root; a location
  is the list of the keys on the way down. An absent location reads as \<^verbatim>\<open>null\<close>,
  writing \<^verbatim>\<open>null\<close> removes a location, and an object left without children is
  removed with it; writing a value below a leaf replaces the leaf by an object. A path of the source such as
  \<^verbatim>\<open>`ordersDelivery/${String(orderId)}/status`\<close> is the list
  \<open>[''ordersDelivery'', String_js orderId, ''status'']\<close>: an interpolated identifier is
  one key, the model does not look for separators inside it, and it accepts every
  write (the source answers 500 when the store refuses one). A \<^verbatim>\<open>null\<close> inside a
  written object (\<^verbatim>\<open>deliveryManId\<close>) stays in the list of its properties and reads as
  an absent location.
\<close>

type_synonym path = "string list"

fun tree_get :: "jsval \<Rightarrow> path \<Rightarrow> jsval" where
  "tree_get t [] = t"
| "tree_get t (k # ks) =
     (case t of
        JObj kvs \<Rightarrow> (case map_of kvs k of Some c \<Rightarrow> tree_get c ks | None \<Rightarrow> JNull)
      | _ \<Rightarrow> JNull)"

definition children :: "jsval \<Rightarrow> (string \<times> jsval) list" where
  "children t = (case t of JObj kvs \<Rightarrow> kvs | _ \<Rightarrow> [])"

definition child :: "jsval \<Rightarrow> string \<Rightarrow> jsval" where
  "child t k = (case map_of (children t) k of Some c \<Rightarrow> c | None \<Rightarrow> JNull)"

definition put_child :: "jsval \<Rightarrow> string \<Rightarrow> jsval \<Rightarrow> jsval" where
  "put_child t k c =
     (case t of
        JObj kvs \<Rightarrow>
          (let kvs' = (if c = JNull then AList.delete k kvs else AList.update k c kvs)
           in if kvs' = [] then JNull else JObj kvs')
      | _ \<Rightarrow> if c = JNull then t else JObj [(k, c)])"

fun tree_set :: "jsval \<Rightarrow> path \<Rightarrow> jsval \<Rightarrow> jsval" where
  "tree_set t [] v = v"
| "tree_set t (k # ks) v = put_child t k (tree_set (child t k) ks v)"

text \<open>\<^verbatim>\<open>rtdb.ref().update(updates)\<close>: every location of \<^verbatim>\<open>updates\<close> is written, in one step.\<close>

definition update :: "jsval \<Rightarrow> (path \<times> jsval) list \<Rightarrow> jsval" where
  "update db updates = foldl (\<lambda>t (p, v). tree_set t p v) db updates"

definition snapshot_exists :: "jsval \<Rightarrow> bool" where
  "snapshot_exists v = (v \<noteq> JNull)"

text \<open>
  What the handler takes from outside: the keys that the two \<^verbatim>\<open>push()\<close> calls return
  and the time the server puts in place of \<^verbatim>\<open>ServerValue.TIMESTAMP\<close>.
\<close>

datatype rtdb_env =
  RtdbEnv (pushOrderKey: string) (pushHistoryKey: string) (serverTime: int)

definition nowTs :: "rtdb_env \<Rightarrow> jsval" where
  "nowTs env = num (of_int (serverTime env))"

subsubsection \<open>Helpers\<close>

definition item_total :: "jsval \<Rightarrow> jsnum" where
  "item_total it =
     js_mul (Number_js (js_or (get_prop it ''quantity'') (num 0)))
            (Number_js (js_or (get_prop it ''unitPrice'') (num 0)))"

text \<open>
  \<^verbatim>\<open>calcTotals\<close> (part_000, lines 26 to 53) writes \<^verbatim>\<open>totalPrice\<close> into every item and
  returns the totals; the model returns the totals and the items as the loop leaves
  them. \<^verbatim>\<open>Object.values\<close> lists the items in the order of their insertion, which is the
  order of the list. The handler passes numbers for \<^verbatim>\<open>deliveryFee\<close> and \<^verbatim>\<open>discount\<close>, so
  the default values of the two parameters are never taken, and it passes objects as
  items, so \<open>set_prop\<close> always finds an object to write to.
\<close>

definition calcTotals ::
  "(string \<times> jsval) list \<Rightarrow> jsval \<Rightarrow> jsval \<Rightarrow> jsval \<times> (string \<times> jsval) list" where
  "calcTotals itemsObj deliveryFee discount =
     (let subtotal = foldl (\<lambda>acc (k, it). js_add acc (item_total it)) (Fin 0) itemsObj;
          itemsObj' = map (\<lambda>(k, it). (k, set_prop it ''totalPrice'' (JNum (item_total it)))) itemsObj;
          fee = Number_js (js_or deliveryFee (num 0));
          disc = Number_js (js_or discount (num 0));
          total = Math_max (Fin 0) (js_sub (js_add subtotal fee) disc)
      in (JObj [(''subtotal'', JNum subtotal),
                (''deliveryFee'', JNum fee),
                (''discount'', JNum disc),
                (''total'', JNum total),
                (''currency'', JStr ''MXN'')],
          itemsObj'))"


subsubsection \<open>POST /createOrderDelivery\<close>

text \<open>
  The handler of part_000, lines 62 to 191. \<open>str_or v d\<close> is \<^verbatim>\<open>String(v || d)\<close> and
  \<open>num_or0 v\<close> is \<^verbatim>\<open>Number(v || 0)\<close>.
\<close>

definition str_or :: "jsval \<Rightarrow> string \<Rightarrow> jsval" where
  "str_or v d = JStr (String_js (js_or v (JStr d)))"

definition num_or0 :: "jsval \<Rightarrow> jsval" where
  "num_or0 v = JNum (Number_js (js_or v (num 0)))"

definition normalize_item :: "jsval \<Rightarrow> jsval" where
  "normalize_item it =
     JObj [(''productId'', str_or (get_prop it ''productId'') []),
           (''productName'', str_or (get_prop it ''productName'') []),
           (''quantity'', num_or0 (get_prop it ''quantity'')),
           (''unitPrice'', num_or0 (get_prop it ''unitPrice'')),
           (''totalPrice'', num 0),
           (''comments'', str_or (get_prop it ''comments'') []),
           (''image'', str_or (get_prop it ''image'') [])]"

text \<open>
  The \<^verbatim>\<open>forEach\<close> that fills \<^verbatim>\<open>itemsObj\<close>: the item at index \<open>idx\<close> gets the key
  \<^verbatim>\<open>`i${idx + 1}`\<close>.
\<close>

fun item_entries :: "nat \<Rightarrow> jsval list \<Rightarrow> (string \<times> jsval) list" where
  "item_entries idx [] = []"
| "item_entries idx (it # its) =
     (''i'' @ dec_nat (idx + 1), normalize_item it) # item_entries (Suc idx) its"

definition item_invalid :: "jsval \<Rightarrow> bool" where
  "item_invalid it =
     (\<not> truthy (get_prop it ''productId'') \<or> \<not> truthy (get_prop it ''productName'')
      \<or> js_le (Number_js (get_prop it ''quantity'')) (Fin 0)
      \<or> js_lt (Number_js (get_prop it ''unitPrice'')) (Fin 0))"

text \<open>
  The validation loop over \<^verbatim>\<open>Object.entries(itemsObj)\<close>: the key of the first
  invalid item.
\<close>

fun first_invalid :: "(string \<times> jsval) list \<Rightarrow> string option" where
  "first_invalid [] = None"
| "first_invalid ((k, it) # rest) = (if item_invalid it then Some k else first_invalid rest)"

definition orderData :: "rtdb_env \<Rightarrow> jsval \<Rightarrow> jsval \<Rightarrow> (string \<times> jsval) list \<Rightarrow> jsval" where
  "orderData env body totals itemsObj =
     (let location = get_prop body ''location'';
          customerSnapshot = get_prop body ''customerSnapshot'';
          localSnapshot = get_prop body ''localSnapshot''
      in JObj
        [(''id'', JStr (pushOrderKey env)),
         (''type'', JStr ''delivery''),
         (''userId'', JStr (String_js (get_prop body ''userId''))),
         (''localId'', JStr (String_js (get_prop body ''localId''))),
         (''deliveryManId'', JNull),
         (''status'', JStr ''created''),
         (''createdAt'', nowTs env),
         (''updatedAt'', nowTs env),
         (''payment'', JObj
            [(''method'', str_or (get_prop (get_prop body ''payment'') ''method'') ''cash''),
             (''status'', JStr ''pending'')]),
         (''totals'', totals),
         (''items'', JObj itemsObj),
         (''location'', JObj
            [(''zoneId'', JStr (String_js (get_prop body ''zoneId''))),
             (''zoneName'', str_or (get_prop body ''zoneName'') []),
             (''lat'', JNum (Number_js (get_prop location ''lat''))),
             (''lng'', JNum (Number_js (get_prop location ''lng''))),
             (''addressText'', str_or (get_prop location ''addressText'') []),
             (''references'', str_or (get_prop location ''references'') [])]),
         (''customerSnapshot'', JObj
            [(''name'', str_or (get_prop customerSnapshot ''name'') []),
             (''phone'', str_or (get_prop customerSnapshot ''phone'') [])]),
         (''localSnapshot'', JObj
            [(''name'', str_or (get_prop localSnapshot ''name'') []),
             (''phone'', str_or (get_prop localSnapshot ''phone'') []),
             (''logoUrl'', str_or (get_prop localSnapshot ''logoUrl'') [])]),
         (''history'', JObj
            [(pushHistoryKey env,
              JObj [(''status'', JStr ''created''), (''at'', nowTs env), (''by'', JStr ''user'')])])])"

definition create_updates :: "rtdb_env \<Rightarrow> jsval \<Rightarrow> jsval \<Rightarrow> (path \<times> jsval) list" where
  "create_updates env body data =
     [([''ordersDelivery'', pushOrderKey env], data),
      ([''ordersDeliveryByUser'', String_js (get_prop body ''userId''), pushOrderKey env],
       JBool True),
      ([''ordersDeliveryByLocal'', String_js (get_prop body ''localId''), pushOrderKey env],
       JBool True),
      ([''ordersDeliveryByStatus'', ''created'', pushOrderKey env], JBool True)]"

definition createOrderDelivery_rtdb :: "rtdb_env \<Rightarrow> jsval \<Rightarrow> request \<Rightarrow> response \<times> jsval" where
  "createOrderDelivery_rtdb env db req =
     (if req_method req \<noteq> ''POST'' then (Response 405 (error_json ''Method not allowed''), db)
      else
        let body = js_or (req_body req) (JObj []);
            location = get_prop body ''location'';
            items = get_prop body ''items''
        in
        if \<not> truthy (get_prop body ''userId'')
        then (Response 400 (error_json ''Missing userId''), db)
        else if \<not> truthy (get_prop body ''localId'') \<or> \<not> truthy (get_prop body ''zoneId'')
                \<or> \<not> truthy (get_prop location ''lat'') \<or> \<not> truthy (get_prop location ''lng'')
        then (Response 400
                (error_json ''Missing required fields: localId, zoneId, location.lat, location.lng''),
              db)
        else if \<not> isArray items \<or> length (elems items) = 0
        then (Response 400 (error_json ''Items must be a non-empty array''), db)
        else
          (case first_invalid (item_entries 0 (elems items)) of
             Some k \<Rightarrow> (Response 400 (error_json (''Invalid item at '' @ k)), db)
           | None \<Rightarrow>
               let (totals, itemsObj) =
                     calcTotals (item_entries 0 (elems items))
                       (num_or0 (get_prop body ''deliveryFee''))
                       (num_or0 (get_prop body ''discount''))
               in
               if pushOrderKey env = [] then (Response 500 (error_json ''orderId is null''), db)
               else if pushHistoryKey env = []
               then (Response 500 (error_json ''historyId is null''), db)
               else
                 (Response 200
                    (JObj [(''ok'', JBool True), (''orderId'', JStr (pushOrderKey env))]),
                  update db (create_updates env body (orderData env body totals itemsObj)))))"

subsubsection \<open>POST /cancelOrderDelivery\<close>



subsection \<open>The document store of \<^verbatim>\<open>src/functions/src/index.ts\<close>\<close>

text \<open>
  Firestore holds documents, each a map of fields found by its path: an order is the document
  \<open>[''ordersDelivery'', id]\<close> and an entry of its history is a document of the
  sub-collection, \<open>[''ordersDelivery'', id, ''history'', hid]\<close>. A batch collects
  writes and \<^verbatim>\<open>commit\<close> applies them together; a handler that returns before
  \<^verbatim>\<open>commit\<close> has written nothing. \<^verbatim>\<open>batch.update\<close> is only used on a document the
  handler has just read, so the model does not give it a failure.
\<close>

type_synonym doc = "(string \<times> jsval) list"

type_synonym fstore = "path \<Rightarrow> doc option"

datatype fs_write = FsSet path doc | FsUpdate path doc

fun fs_apply :: "fstore \<Rightarrow> fs_write \<Rightarrow> fstore" where
  "fs_apply st (FsSet p d) = st(p \<mapsto> d)"
| "fs_apply st (FsUpdate p fields) =
     (case st p of
        Some d \<Rightarrow> st(p \<mapsto> foldl (\<lambda>d (k, v). AList.update k v d) d fields)
      | None \<Rightarrow> st)"

definition commit :: "fstore \<Rightarrow> fs_write list \<Rightarrow> fstore" where
  "commit st batch = foldl fs_apply st batch"

text \<open>
  What the handler takes from outside: the identifiers that the calls of \<^verbatim>\<open>doc()\<close>
  without argument return, in the order of the calls, and the time the server puts in
  place of \<^verbatim>\<open>FieldValue.serverTimestamp()\<close> (a number in the model).
\<close>

datatype fs_env = FsEnv (autoId: "nat \<Rightarrow> string") (fsServerTime: int)

definition serverTimestamp :: "fs_env \<Rightarrow> jsval" where
  "serverTimestamp env = num (of_int (fsServerTime env))"

subsubsection \<open>Helpers\<close>

text \<open>\<^verbatim>\<open>calcTotalsFromItemTotals\<close> and \<^verbatim>\<open>pickProductFields\<close> (index.ts, lines 13 to 31).\<close>

definition calcTotalsFromItemTotals :: "jsval list \<Rightarrow> jsval" where
  "calcTotalsFromItemTotals items =
     (let subtotal =
            foldl (\<lambda>acc it. js_add acc (Number_js (js_or (get_prop it ''totalPrice'') (num 0))))
              (Fin 0) items;
          total = Math_max (Fin 0) subtotal
      in JObj [(''subtotal'', JNum subtotal),
               (''deliveryFee'', num 0),
               (''discount'', num 0),
               (''total'', JNum total),
               (''currency'', JStr ''MXN'')])"

text \<open>\<open>str_nn v d\<close> is \<^verbatim>\<open>String(v ?? d)\<close> and \<open>num_nn0 v\<close> is \<^verbatim>\<open>Number(v ?? 0)\<close>.\<close>

definition str_nn :: "jsval \<Rightarrow> string \<Rightarrow> string" where
  "str_nn v d = String_js (js_nullish v (JStr d))"

definition num_nn0 :: "jsval \<Rightarrow> jsnum" where
  "num_nn0 v = Number_js (js_nullish v (num 0))"

definition pickProductFields :: "jsval \<Rightarrow> jsval" where
  "pickProductFields it =
     (let info = js_or (get_prop it ''infoProduct'') (JObj []) in
      JObj [(''productId'', JStr (str_nn (get_prop it ''productID'') [])),
            (''quantity'', JNum (num_nn0 (get_prop it ''quantity''))),
            (''unitPrice'',
               JNum (num_nn0 (js_nullish (get_prop info ''precio'')
                                (get_prop (get_prop info ''acf'') ''price'')))),
            (''totalPrice'', JNum (num_nn0 (get_prop it ''total''))),
            (''slug'', JStr (str_nn (get_prop info ''slug'') [])),
            (''image'', JStr (str_nn (get_prop info ''imagen'') [])),
            (''comments'', JStr (str_nn (get_prop it ''comments'') []))])"

subsubsection \<open>POST /createOrderDelivery\<close>

text \<open>
  The handler of index.ts, lines 36 to 131. First the inner loop over the items of
  order \<open>o\<close> (lines 77 to 89), from index \<open>i\<close>: the message of the first check that
  fails.
\<close>

fun check_items :: "nat \<Rightarrow> nat \<Rightarrow> jsval list \<Rightarrow> string option" where
  "check_items o_idx i [] = None"
| "check_items o_idx i (it # rest) =
     (if \<not> truthy (get_prop it ''productId'') \<or> js_le (Number_js (get_prop it ''quantity'')) (Fin 0)
      then Some (''Invalid item at order['' @ dec_nat o_idx @ ''].items['' @ dec_nat i
                 @ '']: missing productID or quantity'')
      else if js_lt (Number_js (get_prop it ''totalPrice'')) (Fin 0)
      then Some (''Invalid item at order['' @ dec_nat o_idx @ ''].items['' @ dec_nat i
                 @ '']: total < 0'')
      else check_items o_idx (Suc i) rest)"

definition order_doc :: "fs_env \<Rightarrow> string \<Rightarrow> string \<Rightarrow> jsval \<Rightarrow> doc" where
  "order_doc env userId orderId ord =
     (let items = map pickProductFields (elems (get_prop ord ''items''));
          deliveryMethod = str_nn (get_prop ord ''deliveryMethod'') ''pickup''
      in
        [(''id'', JStr orderId),
         (''type'', JStr (if deliveryMethod = ''pickup'' then ''pickup'' else ''delivery'')),
         (''userId'', JStr userId),
         (''localId'', JStr (str_nn (get_prop ord ''bussineId'') [])),
         (''deliveryManId'', JNull),
         (''status'', JStr ''created''),
         (''createdAt'', serverTimestamp env),
         (''updatedAt'', serverTimestamp env),
         (''payment'', JObj [(''method'', JStr ''cash''), (''status'', JStr ''pending'')]),
         (''totals'', calcTotalsFromItemTotals items),
         (''items'', JArr items),
         (''location'', JObj
            [(''zoneId'', JStr (str_nn (get_prop ord ''bussineZoneId'') [])),
             (''zoneName'', JStr (str_nn (get_prop ord ''bussineZoneName'') [])),
             (''lat'', JNum (Number_js (get_prop (get_prop ord ''bussineLocation'') ''lat''))),
             (''lng'', JNum (Number_js (get_prop (get_prop ord ''bussineLocation'') ''long'')))]),
         (''localSnapshot'', JObj [(''name'', JStr (str_nn (get_prop ord ''bussineName'') []))])])"

text \<open>
  One turn of the loop over \<^verbatim>\<open>orders\<close>, for the order at index \<open>o\<close>: the response of
  the check that fails, or the identifier of the new order and the two writes added to
  the batch. The turn draws the identifiers \<open>autoId env (2 * o)\<close> and
  \<open>autoId env (2 * o + 1)\<close>: every earlier turn drew two.
\<close>

definition order_turn ::
  "fs_env \<Rightarrow> string \<Rightarrow> nat \<Rightarrow> jsval \<Rightarrow> response + (string \<times> fs_write list)" where
  "order_turn env userId o_idx ord =
     (let localId = str_nn (get_prop ord ''bussineId'') [];
          zoneId = str_nn (get_prop ord ''bussineZoneId'') [];
          lat = Number_js (get_prop (get_prop ord ''bussineLocation'') ''lat'');
          lng = Number_js (get_prop (get_prop ord ''bussineLocation'') ''long'')
      in
      if localId = [] \<or> zoneId = [] \<or> \<not> is_finite lat \<or> \<not> is_finite lng
      then Inl (Response 400 (error_json
             (''Invalid order at index '' @ dec_nat o_idx
              @ '': requires bussineId, bussineZoneId, bussineLocation.lat, bussineLocation.long'')))
      else if \<not> isArray (get_prop ord ''items'') \<or> length (elems (get_prop ord ''items'')) = 0
      then Inl (Response 400 (error_json
             (''Invalid order at index '' @ dec_nat o_idx @ '': items must be a non-empty array'')))
      else
        (case check_items o_idx 0 (map pickProductFields (elems (get_prop ord ''items''))) of
           Some msg \<Rightarrow> Inl (Response 400 (error_json msg))
         | None \<Rightarrow>
             let orderId = autoId env (2 * o_idx) in
             Inr (orderId,
                  [FsSet [''ordersDelivery'', orderId] (order_doc env userId orderId ord),
                   FsSet [''ordersDelivery'', orderId, ''history'', autoId env (2 * o_idx + 1)]
                     [(''status'', JStr ''created''), (''at'', serverTimestamp env),
                      (''by'', JStr ''user'')]])))"

fun orders_loop ::
  "fs_env \<Rightarrow> string \<Rightarrow> nat \<Rightarrow> jsval list \<Rightarrow> response + (string list \<times> fs_write list)" where
  "orders_loop env userId o_idx [] = Inr ([], [])"
| "orders_loop env userId o_idx (ord # rest) =
     (case order_turn env userId o_idx ord of
        Inl r \<Rightarrow> Inl r
      | Inr (orderId, ws) \<Rightarrow>
          (case orders_loop env userId (Suc o_idx) rest of
             Inl r \<Rightarrow> Inl r
           | Inr (ids, ws') \<Rightarrow> Inr (orderId # ids, ws @ ws')))"

definition createOrderDelivery_fs :: "fs_env \<Rightarrow> fstore \<Rightarrow> request \<Rightarrow> response \<times> fstore" where
  "createOrderDelivery_fs env st req =
     (if req_method req \<noteq> ''POST'' then (Response 405 (error_json ''Method not allowed''), st)
      else
        let body = js_or (req_body req) (JObj []);
            userId = String_js (js_or (get_prop body ''userId'') (JStr []));
            orders = js_nullish (js_nullish (js_nullish (get_prop body ''orders'')
                        (get_prop body ''data'')) (get_prop body ''payload'')) body
        in
        if userId = [] then (Response 400 (error_json ''Missing userId''), st)
        else if \<not> isArray orders \<or> length (elems orders) = 0
        then (Response 400 (error_json ''Missing orders: must be a non-empty array''), st)
        else
          (case orders_loop env userId 0 (elems orders) of
             Inl r \<Rightarrow> (r, st)
           | Inr (createdOrderIds, batch) \<Rightarrow>
               (Response 200
                  (JObj [(''ok'', JBool True), (''orderIds'', JArr (map JStr createdOrderIds))]),
                commit st batch)))"

subsubsection \<open>POST /cancelOrderDelivery\<close>



section \<open>Vocabulary of the properties\<close>

subsection \<open>What the handlers read from a request\<close>

text \<open>A field of the request body, as the handlers destructure it from \<^verbatim>\<open>req.body || {}\<close>.\<close>

definition req_field :: "request \<Rightarrow> string \<Rightarrow> jsval" where
  "req_field req k = get_prop (js_or (req_body req) (JObj [])) k"


definition rtdb_entries :: "request \<Rightarrow> (string \<times> jsval) list" where
  "rtdb_entries req = item_entries 0 (elems (req_field req ''items''))"

definition rtdb_totals :: "request \<Rightarrow> jsval \<times> (string \<times> jsval) list" where
  "rtdb_totals req =
     calcTotals (rtdb_entries req) (num_or0 (req_field req ''deliveryFee''))
       (num_or0 (req_field req ''discount''))"

definition rtdb_order :: "rtdb_env \<Rightarrow> request \<Rightarrow> jsval" where
  "rtdb_order env req =
     orderData env (js_or (req_body req) (JObj [])) (fst (rtdb_totals req)) (snd (rtdb_totals req))"

text \<open>
  The document-store intake (index.ts, lines 42 to 119): the caller, the orders of the
  batch and the items of one of them, the location check of an order, and the
  documents written for the order at index \<open>i\<close>.
\<close>

definition fs_userId :: "request \<Rightarrow> string" where
  "fs_userId req = String_js (js_or (req_field req ''userId'') (JStr []))"

definition fs_orders :: "request \<Rightarrow> jsval list" where
  "fs_orders req =
     elems (js_nullish (js_nullish (js_nullish (req_field req ''orders'')
              (req_field req ''data'')) (req_field req ''payload''))
              (js_or (req_body req) (JObj [])))"



definition order_path :: "fs_env \<Rightarrow> nat \<Rightarrow> path" where
  "order_path env i = [''ordersDelivery'', autoId env (2 * i)]"

definition history_path :: "fs_env \<Rightarrow> nat \<Rightarrow> path" where
  "history_path env i = [''ordersDelivery'', autoId env (2 * i), ''history'', autoId env (2 * i + 1)]"

definition created_entry :: "fs_env \<Rightarrow> doc" where
  "created_entry env =
     [(''status'', JStr ''created''), (''at'', serverTimestamp env), (''by'', JStr ''user'')]"

subsection \<open>The numbers of an intake\<close>












subsection \<open>What the stores hold\<close>

text \<open>
  The order stored under an identifier in the tree store, and the status that both
  cancellation handlers read from an order (part_000, line 211; index.ts, line 151).
\<close>

definition order_node :: "jsval \<Rightarrow> string \<Rightarrow> jsval" where
  "order_node db oid = tree_get db [''ordersDelivery'', oid]"


text \<open>
  Membership in a secondary index of the tree store is presence:
  \<open>in_index db ''ordersDeliveryByStatus'' ''created'' oid\<close> says that the location
  \<^verbatim>\<open>ordersDeliveryByStatus/created/<oid>\<close> holds a value.
\<close>

definition in_index :: "jsval \<Rightarrow> string \<Rightarrow> string \<Rightarrow> string \<Rightarrow> bool" where
  "in_index db idx key oid = snapshot_exists (tree_get db [idx, key, oid])"



subsection \<open>Runs\<close>




subsection \<open>Sample stores and requests\<close>

text \<open>
  Keys, identifiers and server times for the examples: \<^verbatim>\<open>push()\<close> returns \<open>o2\<close> and
  \<open>h2\<close>; \<^verbatim>\<open>doc()\<close> returns \<open>a0\<close>, \<open>a1\<close>, ... in one request and \<open>b0\<close>, \<open>b1\<close>, ... in another.
\<close>

definition env1 :: rtdb_env where
  "env1 = RtdbEnv ''o2'' ''h2'' 1700000000000"

definition fenv1 :: fs_env where
  "fenv1 = FsEnv (\<lambda>n. ''a'' @ dec_nat n) 1700000000000"


text \<open>A tree store that holds the order \<open>o1\<close> of user \<open>u1\<close> in a given status.\<close>

definition db_with :: "jsval \<Rightarrow> jsval" where
  "db_with status =
     JObj [(''ordersDelivery'',
              JObj [(''o1'', JObj [(''id'', JStr ''o1''), (''userId'', JStr ''u1''),
                                   (''status'', status),
                                   (''history'', JObj [(''h1'', JObj [(''status'', JStr ''created'')])])])]),
           (''ordersDeliveryByUser'', JObj [(''u1'', JObj [(''o1'', JBool True)])]),
           (''ordersDeliveryByStatus'', JObj [(''created'', JObj [(''o1'', JBool True)])])]"


text \<open>The cancellation of the order \<open>o1\<close> by a given caller.\<close>

definition cancel_req :: "string \<Rightarrow> request" where
  "cancel_req uid =
     Request ''POST'' (JObj [(''userId'', JStr uid), (''orderId'', JStr ''o1''),
                             (''reason'', JStr ''changed mind'')])"

text \<open>
  Intake requests for the tree-store handler: the example request of the specification
  with a chosen latitude and with extra fields in its one item, and the same request
  with a chosen list of items.
\<close>

definition intake_body :: "rat \<Rightarrow> (string \<times> jsval) list \<Rightarrow> jsval" where
  "intake_body lat extra =
     JObj [(''userId'', JStr ''u1''), (''localId'', JStr ''L1''), (''zoneId'', JStr ''Z1''),
           (''location'', JObj [(''lat'', num lat), (''lng'', num (- 99.1))]),
           (''items'', JArr [JObj ([(''productId'', JStr ''p1''), (''quantity'', num 2),
                                    (''unitPrice'', num 50)] @ extra)])]"



text \<open>
  An intake request for the document-store handler: one order with one item, whose
  quantity and \<^verbatim>\<open>total\<close> are chosen.
\<close>

definition fs_intake_body :: "rat \<Rightarrow> jsval \<Rightarrow> jsval \<Rightarrow> jsval" where
  "fs_intake_body lat quantity tot =
     JObj [(''userId'', JStr ''u1''),
           (''orders'', JArr [JObj
              [(''bussineId'', JStr ''L1''), (''bussineZoneId'', JStr ''Z1''),
               (''bussineLocation'', JObj [(''lat'', num lat), (''long'', num (- 99.1))]),
               (''items'', JArr [JObj [(''productID'', JStr ''p1''), (''quantity'', quantity),
                                       (''infoProduct'', JObj [(''precio'', num 50)]),
                                       (''total'', tot)]])]])]"

section \<open>Properties of the store operations\<close>

lemma child_JNull [simp]: "child JNull k = JNull"
  by (simp add: child_def children_def)

lemma tree_get_JNull [simp]: "tree_get JNull ks = JNull"
  by (cases ks) simp_all

lemma tree_get_Cons: "tree_get t (k # ks) = tree_get (child t k) ks"
  by (cases t; cases ks) (auto simp: child_def children_def split: option.splits)

lemma map_of_put:
  "map_of (if c = JNull then AList.delete k kvs else AList.update k c kvs) k' =
   (if k' = k then (if c = JNull then None else Some c) else map_of kvs k')"
  by (simp add: AList.delete_conv AList.update_conv')

lemma child_put_child: "child (put_child t k c) k' = (if k' = k then c else child t k')"
proof (cases t)
  case (JObj kvs)
  let ?kvs = "if c = JNull then AList.delete k kvs else AList.update k c kvs"
  have "child (put_child t k c) k' = (case map_of ?kvs k' of Some c \<Rightarrow> c | None \<Rightarrow> JNull)"
    using JObj by (cases "?kvs = []") (simp_all add: put_child_def child_def children_def Let_def)
  also have "\<dots> = (if k' = k then c else child t k')"
    unfolding map_of_put using JObj by (simp add: child_def children_def)
  finally show ?thesis .
qed (simp_all add: put_child_def child_def children_def)

lemma get_prop_put_child:
  "get_prop (put_child t k c) k' =
   (if k' = k then (if c = JNull then JUndefined else c) else get_prop t k')"
proof (cases t)
  case (JObj kvs)
  let ?kvs = "if c = JNull then AList.delete k kvs else AList.update k c kvs"
  have "get_prop (put_child t k c) k' = (case map_of ?kvs k' of Some c \<Rightarrow> c | None \<Rightarrow> JUndefined)"
    using JObj by (cases "?kvs = []") (simp_all add: put_child_def Let_def)
  also have "\<dots> = (if k' = k then (if c = JNull then JUndefined else c) else get_prop t k')"
    unfolding map_of_put using JObj by simp
  finally show ?thesis .
qed (simp_all add: put_child_def)



subsection \<open>The sample stores and requests, evaluated\<close>

lemma cancel_req_fields [simp]:
  "req_method (cancel_req uid) = ''POST''"
  "req_field (cancel_req uid) ''userId'' = JStr uid"
  "req_field (cancel_req uid) ''orderId'' = JStr ''o1''"
  "req_field (cancel_req uid) ''reason'' = JStr ''changed mind''"
  by (simp_all add: cancel_req_def req_field_def js_or_def)

lemma db_with_order [simp]:
  "order_node (db_with s) ''o1'' =
     JObj [(''id'', JStr ''o1''), (''userId'', JStr ''u1''), (''status'', s),
           (''history'', JObj [(''h1'', JObj [(''status'', JStr ''created'')])])]"
  by (simp add: db_with_def order_node_def)


section \<open>Cancellation: the guards\<close>







subsection \<open>Reading the tree after the writes of a cancellation\<close>

lemmas tree_rw = update_def tree_get_Cons child_put_child get_prop_put_child






subsection \<open>Reading the documents after the batch of a cancellation\<close>





section \<open>Cancellation: the successful path\<close>




subsection \<open>Reading the tree after the writes of an intake\<close>

lemma create_updates_order:
  "order_node (update db (create_updates env body data)) oid
   = (if oid = pushOrderKey env then data else order_node db oid)"
  by (simp add: tree_rw create_updates_def order_node_def del: tree_get.simps(2))

lemma create_updates_status_index:
  "in_index (update db (create_updates env body data)) ''ordersDeliveryByStatus'' b oid
   = (if b = ''created'' \<and> oid = pushOrderKey env then True
      else in_index db ''ordersDeliveryByStatus'' b oid)"
  by (simp add: tree_rw create_updates_def in_index_def snapshot_exists_def
      del: tree_get.simps(2))

lemma create_updates_user_index:
  "in_index (update db (create_updates env body data)) ''ordersDeliveryByUser''
     (String_js (get_prop body ''userId'')) (pushOrderKey env)"
  by (simp add: tree_rw create_updates_def in_index_def snapshot_exists_def
      del: tree_get.simps(2))

lemma create_updates_local_index:
  "in_index (update db (create_updates env body data)) ''ordersDeliveryByLocal''
     (String_js (get_prop body ''localId'')) (pushOrderKey env)"
  by (simp add: tree_rw create_updates_def in_index_def snapshot_exists_def
      del: tree_get.simps(2))

lemma dec_nat_1 [simp]: "dec_nat (Suc 0) = ''1''"
  by (simp add: dec_nat.simps digit_char_def)

section \<open>Intake: the checks\<close>

text \<open>
  Claim C7. The claim says that a request with a merchant, a zone and finite numeric
  coordinates, zero included, passes the location check. The tree-store handler tests
  the coordinates with \<^verbatim>\<open>!location?.lat\<close>, so it refuses the latitude \<open>0\<close>: the example
  request of the specification, its item named and its latitude set to \<open>0\<close>, is answered
  400 \<^verbatim>\<open>Missing required fields\<close> in every store. The document-store handler tests
  \<^verbatim>\<open>Number.isFinite\<close> and accepts the same coordinates.
\<close>

theorem create_rtdb_refuses_zero_latitude:
  "createOrderDelivery_rtdb env db
     (Request ''POST'' (intake_body 0 [(''productName'', JStr ''Taco'')]))
   = (Response 400
        (error_json ''Missing required fields: localId, zoneId, location.lat, location.lng''),
      db)
   \<and> res_status (fst (createOrderDelivery_fs fenv st
         (Request ''POST'' (fs_intake_body 0 (num 2) (num 100))))) = 200"
  by (simp add: createOrderDelivery_rtdb_def createOrderDelivery_fs_def intake_body_def
      fs_intake_body_def js_or_def js_nullish_def nullish_def num_def order_turn_def str_nn_def
      num_nn0_def pickProductFields_def Let_def)

theorem create_rtdb_refuses_zero_latitude_witness:
  "createOrderDelivery_rtdb env1 JNull
     (Request ''POST'' (intake_body 0 [(''productName'', JStr ''Taco'')]))
   = (Response 400
        (error_json ''Missing required fields: localId, zoneId, location.lat, location.lng''),
      JNull)
   \<and> res_status (fst (createOrderDelivery_fs fenv1 Map.empty
         (Request ''POST'' (fs_intake_body 0 (num 2) (num 100))))) = 200"
  by (rule create_rtdb_refuses_zero_latitude)

section \<open>Intake: the example of the specification\<close>

text \<open>
  Claim C9, as the code has it. The tree-store handler requires a non-empty
  \<^verbatim>\<open>productName\<close> in every item. With a name added to its item (here \<^verbatim>\<open>Taco\<close>) the
  example request \<^verbatim>\<open>{userId: u1, localId: L1, zoneId: Z1, location: {lat: 19.4, lng:
  -99.1}, items: [{productId: p1, quantity: 2, unitPrice: 50}]}\<close> is answered 200 with
  the new identifier, and the stored order has the totals \<^verbatim>\<open>{subtotal: 100,
  deliveryFee: 0, discount: 0, total: 100, currency: MXN}\<close> and the status \<^verbatim>\<open>created\<close>.
\<close>

theorem spec_example_named_item_accepted:
  assumes "pushOrderKey env \<noteq> []" and "pushHistoryKey env \<noteq> []"
  shows "fst (createOrderDelivery_rtdb env db
                (Request ''POST'' (intake_body 19.4 [(''productName'', JStr ''Taco'')])))
           = Response 200 (JObj [(''ok'', JBool True), (''orderId'', JStr (pushOrderKey env))])
       \<and> get_prop (order_node (snd (createOrderDelivery_rtdb env db
                (Request ''POST'' (intake_body 19.4 [(''productName'', JStr ''Taco'')]))))
             (pushOrderKey env)) ''totals''
           = JObj [(''subtotal'', num 100), (''deliveryFee'', num 0), (''discount'', num 0),
                   (''total'', num 100), (''currency'', JStr ''MXN'')]
       \<and> get_prop (order_node (snd (createOrderDelivery_rtdb env db
                (Request ''POST'' (intake_body 19.4 [(''productName'', JStr ''Taco'')]))))
             (pushOrderKey env)) ''status''
           = JStr ''created''"
proof -
  let ?body = "intake_body 19.4 [(''productName'', JStr ''Taco'')]"
  let ?totals = "JObj [(''subtotal'', num 100), (''deliveryFee'', num 0), (''discount'', num 0),
                   (''total'', num 100), (''currency'', JStr ''MXN'')]"
  let ?items = "[(''i1'', JObj [(''productId'', JStr ''p1''), (''productName'', JStr ''Taco''),
                   (''quantity'', num 2), (''unitPrice'', num 50), (''totalPrice'', num 100),
                   (''comments'', JStr []), (''image'', JStr [])])]"
  have r: "createOrderDelivery_rtdb env db (Request ''POST'' ?body)
            = (Response 200 (JObj [(''ok'', JBool True), (''orderId'', JStr (pushOrderKey env))]),
               update db (create_updates env ?body (orderData env ?body ?totals ?items)))"
    using assms
    by (simp add: createOrderDelivery_rtdb_def intake_body_def js_or_def num_def
        normalize_item_def str_or_def num_or0_def item_invalid_def calcTotals_def item_total_def
        js_mul_def js_sub_def Math_max_def Let_def)
  show ?thesis
    unfolding r fst_conv snd_conv create_updates_order
    by (simp add: orderData_def Let_def)
qed

theorem spec_example_named_item_accepted_witness:
  "fst (createOrderDelivery_rtdb env1 JNull
          (Request ''POST'' (intake_body 19.4 [(''productName'', JStr ''Taco'')])))
     = Response 200 (JObj [(''ok'', JBool True), (''orderId'', JStr ''o2'')])
   \<and> get_prop (order_node (snd (createOrderDelivery_rtdb env1 JNull
          (Request ''POST'' (intake_body 19.4 [(''productName'', JStr ''Taco'')])))) ''o2'') ''totals''
     = JObj [(''subtotal'', num 100), (''deliveryFee'', num 0), (''discount'', num 0),
             (''total'', num 100), (''currency'', JStr ''MXN'')]"
proof -
  have k: "pushOrderKey env1 \<noteq> []" and h: "pushHistoryKey env1 \<noteq> []"
    by (simp_all add: env1_def)
  have e: "pushOrderKey env1 = ''o2''"
    by (simp add: env1_def)
  from spec_example_named_item_accepted [OF k h, of JNull] show ?thesis
    unfolding e by blast
qed

text \<open>
  The request exactly as the specification writes it has no \<^verbatim>\<open>productName\<close>: the
  tree-store handler answers 400 \<^verbatim>\<open>Invalid item at i1\<close> and writes nothing. The
  document-store handler reads its orders from \<^verbatim>\<open>orders\<close>, \<^verbatim>\<open>data\<close>, \<^verbatim>\<open>payload\<close> or the
  body itself, finds no array and answers 400 as well.
\<close>

theorem spec_example_as_written_rejected:
  "createOrderDelivery_rtdb env1 JNull (Request ''POST'' (intake_body 19.4 []))
     = (Response 400 (error_json ''Invalid item at i1''), JNull)
   \<and> createOrderDelivery_fs fenv1 Map.empty (Request ''POST'' (intake_body 19.4 []))
     = (Response 400 (error_json ''Missing orders: must be a non-empty array''), Map.empty)"
  by (simp add: createOrderDelivery_rtdb_def createOrderDelivery_fs_def intake_body_def
      js_or_def js_nullish_def nullish_def num_def normalize_item_def str_or_def num_or0_def
      item_invalid_def Let_def)

subsection \<open>The batch of a document-store intake\<close>

lemma commit_append: "commit st (ws @ ws') = commit (commit st ws) ws'"
  by (simp add: commit_def)

lemma order_turn_Inl: "order_turn env uid i ord = Inl r \<Longrightarrow> res_status r = 400"
  by (auto simp: order_turn_def Let_def split: if_splits option.splits)

lemma order_turn_Inr:
  "order_turn env uid i ord = Inr (oid, ws) \<Longrightarrow>
     oid = autoId env (2 * i)
     \<and> ws = [FsSet (order_path env i) (order_doc env uid (autoId env (2 * i)) ord),
             FsSet (history_path env i) (created_entry env)]
     \<and> check_items i 0 (map pickProductFields (elems (get_prop ord ''items''))) = None
     \<and> elems (get_prop ord ''items'') \<noteq> []"
  by (auto simp: order_turn_def order_path_def history_path_def created_entry_def Let_def
      split: if_splits option.splits)

lemma orders_loop_Inl: "orders_loop env uid i ords = Inl r \<Longrightarrow> res_status r = 400"
  by (induction ords arbitrary: i)
     (auto split: sum.splits prod.splits dest: order_turn_Inl)

lemma commit_turn:
  "commit st [FsSet (order_path env i) d, FsSet (history_path env i) e]
   = st(order_path env i \<mapsto> d, history_path env i \<mapsto> e)"
  by (simp add: commit_def)

lemma path_lengths [simp]:
  "order_path env i \<noteq> history_path env j"
  "history_path env j \<noteq> order_path env i"
  by (simp_all add: order_path_def history_path_def)

lemma orders_loop_ids:
  "orders_loop env uid b ords = Inr (ids, ws) \<Longrightarrow>
     ids = map (\<lambda>i. autoId env (2 * (b + i))) [0..<length ords]
     \<and> (\<forall>i<length ords. \<exists>w. order_turn env uid (b + i) (ords ! i) = Inr w)"
proof (induction ords arbitrary: b ids ws)
  case Nil
  then show ?case by simp
next
  case (Cons ord rest)
  from Cons.prems obtain oid w ids' ws' where
    t: "order_turn env uid b ord = Inr (oid, w)"
    and l: "orders_loop env uid (Suc b) rest = Inr (ids', ws')"
    and i: "ids = oid # ids'"
    by (auto split: sum.splits prod.splits)
  from Cons.IH [OF l] have
    ih1: "ids' = map (\<lambda>i. autoId env (2 * (Suc b + i))) [0..<length rest]"
    and ih2: "\<forall>i<length rest. \<exists>w. order_turn env uid (Suc b + i) (rest ! i) = Inr w"
    by blast+
  have o: "oid = autoId env (2 * b)"
    using order_turn_Inr [OF t] by simp
  have "map (\<lambda>i. autoId env (2 * (b + i))) [0..<length (ord # rest)]
        = autoId env (2 * b) # map (\<lambda>i. autoId env (2 * (Suc b + i))) [0..<length rest]"
    by (simp add: upt_rec [of 0] map_Suc_upt [symmetric] del: upt_Suc)
  with i o ih1 have a: "ids = map (\<lambda>i. autoId env (2 * (b + i))) [0..<length (ord # rest)]"
    by simp
  have "\<exists>w. order_turn env uid (b + i) ((ord # rest) ! i) = Inr w" if "i < length (ord # rest)" for i
  proof (cases i)
    case 0
    with t show ?thesis by simp
  next
    case (Suc j)
    with that ih2 show ?thesis by simp
  qed
  with a show ?case by blast
qed

lemma orders_loop_commit:
  "orders_loop env uid b ords = Inr (ids, ws) \<Longrightarrow>
     (\<forall>i<length ords. commit st ws (history_path env (b + i)) = Some (created_entry env))
     \<and> (inj_on (\<lambda>i. autoId env (2 * i)) {b..<b + length ords} \<longrightarrow>
          (\<forall>i<length ords. commit st ws (order_path env (b + i))
             = Some (order_doc env uid (autoId env (2 * (b + i))) (ords ! i))))
     \<and> (\<forall>q. (\<forall>i<length ords. q \<noteq> order_path env (b + i) \<and> q \<noteq> history_path env (b + i))
            \<longrightarrow> commit st ws q = st q)"
proof (induction ords arbitrary: b ids ws st)
  case Nil
  then show ?case by (simp add: commit_def)
next
  case (Cons ord rest)
  from Cons.prems obtain oid w ids' ws' where
    t: "order_turn env uid b ord = Inr (oid, w)"
    and l: "orders_loop env uid (Suc b) rest = Inr (ids', ws')"
    and wsd: "ws = w @ ws'"
    by (auto split: sum.splits prod.splits)
  let ?d = "order_doc env uid (autoId env (2 * b)) ord"
  let ?st1 = "st(order_path env b \<mapsto> ?d, history_path env b \<mapsto> created_entry env)"
  have w: "w = [FsSet (order_path env b) ?d, FsSet (history_path env b) (created_entry env)]"
    using order_turn_Inr [OF t] by simp
  have c: "commit st ws = commit ?st1 ws'"
    unfolding wsd commit_append w commit_turn ..
  note ih = Cons.IH [OF l, of ?st1]
  from ih have ih_h: "\<And>j. j < length rest \<Longrightarrow>
      commit ?st1 ws' (history_path env (Suc b + j)) = Some (created_entry env)"
    by blast
  from ih have ih_o: "\<And>j. inj_on (\<lambda>i. autoId env (2 * i)) {Suc b..<Suc b + length rest} \<Longrightarrow>
      j < length rest \<Longrightarrow>
      commit ?st1 ws' (order_path env (Suc b + j))
        = Some (order_doc env uid (autoId env (2 * (Suc b + j))) (rest ! j))"
    by blast
  from ih have ih_q: "\<And>q. (\<And>j. j < length rest \<Longrightarrow>
        q \<noteq> order_path env (Suc b + j) \<and> q \<noteq> history_path env (Suc b + j)) \<Longrightarrow>
      commit ?st1 ws' q = ?st1 q"
    by blast
  have h: "commit st ws (history_path env (b + i)) = Some (created_entry env)"
    if "i < length (ord # rest)" for i
  proof (cases i)
    case 0
    show ?thesis
    proof (cases "\<exists>j<length rest. history_path env b = history_path env (Suc b + j)")
      case True
      then obtain j where "j < length rest" "history_path env b = history_path env (Suc b + j)"
        by blast
      with ih_h [of j] show ?thesis unfolding c 0 by simp
    next
      case False
      then have "commit ?st1 ws' (history_path env b) = ?st1 (history_path env b)"
        by (intro ih_q) auto
      then show ?thesis unfolding c 0 by simp
    qed
  next
    case (Suc j)
    with that ih_h [of j] show ?thesis unfolding c by simp
  qed
  have o: "commit st ws (order_path env (b + i))
             = Some (order_doc env uid (autoId env (2 * (b + i))) ((ord # rest) ! i))"
    if inj: "inj_on (\<lambda>i. autoId env (2 * i)) {b..<b + length (ord # rest)}"
      and "i < length (ord # rest)" for i
  proof (cases i)
    case 0
    have "order_path env b \<noteq> order_path env (Suc b + j)" if "j < length rest" for j
    proof
      assume "order_path env b = order_path env (Suc b + j)"
      then have "autoId env (2 * b) = autoId env (2 * (Suc b + j))"
        by (simp add: order_path_def)
      with inj that have "b = Suc b + j"
        by (auto dest!: inj_onD [where x = b and y = "Suc b + j"])
      then show False by simp
    qed
    then have "commit ?st1 ws' (order_path env b) = ?st1 (order_path env b)"
      by (intro ih_q) auto
    then show ?thesis unfolding c 0 by simp
  next
    case (Suc j)
    from inj have "inj_on (\<lambda>i. autoId env (2 * i)) {Suc b..<Suc b + length rest}"
      by (rule inj_on_subset) auto
    from ih_o [OF this, of j] Suc that(2) show ?thesis unfolding c by simp
  qed
  have q: "commit st ws q = st q"
    if "\<forall>i<length (ord # rest). q \<noteq> order_path env (b + i) \<and> q \<noteq> history_path env (b + i)"
    for q
  proof -
    from that have q0: "q \<noteq> order_path env b \<and> q \<noteq> history_path env b"
      by (auto dest: spec [where x = 0])
    have "q \<noteq> order_path env (Suc b + j) \<and> q \<noteq> history_path env (Suc b + j)"
      if "j < length rest" for j
      using \<open>\<forall>i<length (ord # rest). _\<close> that by (auto dest!: spec [where x = "Suc j"])
    then have "commit ?st1 ws' q = ?st1 q"
      by (intro ih_q) auto
    with q0 show ?thesis unfolding c by simp
  qed
  from h o q show ?case by blast
qed

subsection \<open>A successful tree-store intake\<close>

lemma create_rtdb_ok:
  assumes "res_status (fst (createOrderDelivery_rtdb env db req)) = 200"
  shows "createOrderDelivery_rtdb env db req
         = (Response 200 (JObj [(''ok'', JBool True), (''orderId'', JStr (pushOrderKey env))]),
            update db (create_updates env (js_or (req_body req) (JObj [])) (rtdb_order env req)))"
    and "first_invalid (rtdb_entries req) = None"
    and "pushOrderKey env \<noteq> []" and "pushHistoryKey env \<noteq> []"
  using assms
  by (auto simp add: createOrderDelivery_rtdb_def rtdb_order_def rtdb_totals_def rtdb_entries_def
      req_field_def Let_def split: if_splits option.splits prod.splits)

lemma rtdb_order_fields:
  "get_prop (rtdb_order env req) ''id'' = JStr (pushOrderKey env)"
  "get_prop (rtdb_order env req) ''status'' = JStr ''created''"
  "get_prop (rtdb_order env req) ''userId'' = JStr (String_js (req_field req ''userId''))"
  "get_prop (rtdb_order env req) ''localId'' = JStr (String_js (req_field req ''localId''))"
  "get_prop (rtdb_order env req) ''totals'' = fst (rtdb_totals req)"
  "get_prop (rtdb_order env req) ''items'' = JObj (snd (rtdb_totals req))"
  "get_prop (rtdb_order env req) ''history''
     = JObj [(pushHistoryKey env,
              JObj [(''status'', JStr ''created''), (''at'', nowTs env), (''by'', JStr ''user'')])]"
  by (simp_all add: rtdb_order_def orderData_def req_field_def Let_def)

lemma rtdb_order_exists: "rtdb_order env req \<noteq> JNull"
  by (simp add: rtdb_order_def orderData_def Let_def)

subsection \<open>A successful document-store intake\<close>

lemma create_fs_ok:
  assumes "res_status (fst (createOrderDelivery_fs env st req)) = 200"
  shows "\<exists>ids ws. orders_loop env (fs_userId req) 0 (fs_orders req) = Inr (ids, ws)
           \<and> createOrderDelivery_fs env st req
              = (Response 200 (JObj [(''ok'', JBool True), (''orderIds'', JArr (map JStr ids))]),
                 commit st ws)"
  using assms
  by (auto simp add: createOrderDelivery_fs_def fs_userId_def fs_orders_def req_field_def Let_def
      split: if_splits sum.splits prod.splits dest: orders_loop_Inl)

lemma order_doc_fields:
  "map_of (order_doc env uid oid ord) ''id'' = Some (JStr oid)"
  "map_of (order_doc env uid oid ord) ''status'' = Some (JStr ''created'')"
  "map_of (order_doc env uid oid ord) ''userId'' = Some (JStr uid)"
  "map_of (order_doc env uid oid ord) ''totals''
     = Some (calcTotalsFromItemTotals (map pickProductFields (elems (get_prop ord ''items''))))"
  by (simp_all add: order_doc_def Let_def)

section \<open>Intake: what a successful request leaves in the store\<close>

text \<open>
  Claim C2, as the code has it. After a successful intake of the tree-store handler the
  answer carries the key that \<^verbatim>\<open>push()\<close> returned, the order is stored under that key
  with the status \<^verbatim>\<open>created\<close>, the key is in the index of the user, in the index of
  the merchant and in the bucket \<^verbatim>\<open>created\<close> of the status index, and the history of
  the order is exactly the one entry \<^verbatim>\<open>{status: created, at, by: user}\<close>.

  The document-store handler creates one order for each element of the batch and keeps
  no index. After a successful intake, given that \<^verbatim>\<open>doc()\<close> returned identifiers that
  are new (pairwise different, and without history documents in the store), the
  answer lists the identifiers, each order is stored under its identifier with the
  status \<^verbatim>\<open>created\<close>, its history is exactly the one document
  \<^verbatim>\<open>{status: created, at, by: user}\<close>, and no other document of the store has changed:
  no index entry is written.
\<close>

theorem created_order_is_stored:
  "(res_status (fst (createOrderDelivery_rtdb env db req)) = 200 \<longrightarrow>
      (let db' = snd (createOrderDelivery_rtdb env db req); oid = pushOrderKey env in
       res_json (fst (createOrderDelivery_rtdb env db req))
         = JObj [(''ok'', JBool True), (''orderId'', JStr oid)]
       \<and> snapshot_exists (order_node db' oid)
       \<and> get_prop (order_node db' oid) ''id'' = JStr oid
       \<and> get_prop (order_node db' oid) ''status'' = JStr ''created''
       \<and> in_index db' ''ordersDeliveryByUser'' (String_js (req_field req ''userId'')) oid
       \<and> in_index db' ''ordersDeliveryByLocal'' (String_js (req_field req ''localId'')) oid
       \<and> in_index db' ''ordersDeliveryByStatus'' ''created'' oid
       \<and> get_prop (order_node db' oid) ''history''
           = JObj [(pushHistoryKey env,
                    JObj [(''status'', JStr ''created''), (''at'', nowTs env),
                          (''by'', JStr ''user'')])]))
   \<and> (res_status (fst (createOrderDelivery_fs fenv st req)) = 200
       \<and> inj_on (\<lambda>i. autoId fenv (2 * i)) {0..<length (fs_orders req)}
       \<and> (\<forall>i<length (fs_orders req). \<forall>h.
             st [''ordersDelivery'', autoId fenv (2 * i), ''history'', h] = None)
       \<longrightarrow>
      (let st' = snd (createOrderDelivery_fs fenv st req) in
       res_json (fst (createOrderDelivery_fs fenv st req))
         = JObj [(''ok'', JBool True),
                 (''orderIds'', JArr (map (\<lambda>i. JStr (autoId fenv (2 * i)))
                                        [0..<length (fs_orders req)]))]
       \<and> fs_orders req \<noteq> []
       \<and> (\<forall>i<length (fs_orders req).
             (\<exists>d. st' [''ordersDelivery'', autoId fenv (2 * i)] = Some d
                \<and> get_prop (JObj d) ''id'' = JStr (autoId fenv (2 * i))
                \<and> get_prop (JObj d) ''status'' = JStr ''created'')
             \<and> (\<forall>h. st' [''ordersDelivery'', autoId fenv (2 * i), ''history'', h]
                     = (if h = autoId fenv (2 * i + 1) then Some (created_entry fenv) else None)))
       \<and> (\<forall>q. (\<forall>i<length (fs_orders req). q \<noteq> order_path fenv i \<and> q \<noteq> history_path fenv i)
              \<longrightarrow> st' q = st q)))"
proof (intro conjI impI)
  assume ok: "res_status (fst (createOrderDelivery_rtdb env db req)) = 200"
  note r = create_rtdb_ok(1) [OF ok]
  show "let db' = snd (createOrderDelivery_rtdb env db req); oid = pushOrderKey env in
       res_json (fst (createOrderDelivery_rtdb env db req))
         = JObj [(''ok'', JBool True), (''orderId'', JStr oid)]
       \<and> snapshot_exists (order_node db' oid)
       \<and> get_prop (order_node db' oid) ''id'' = JStr oid
       \<and> get_prop (order_node db' oid) ''status'' = JStr ''created''
       \<and> in_index db' ''ordersDeliveryByUser'' (String_js (req_field req ''userId'')) oid
       \<and> in_index db' ''ordersDeliveryByLocal'' (String_js (req_field req ''localId'')) oid
       \<and> in_index db' ''ordersDeliveryByStatus'' ''created'' oid
       \<and> get_prop (order_node db' oid) ''history''
           = JObj [(pushHistoryKey env,
                    JObj [(''status'', JStr ''created''), (''at'', nowTs env),
                          (''by'', JStr ''user'')])]"
    unfolding r Let_def fst_conv snd_conv
    using create_updates_user_index [of db env "js_or (req_body req) (JObj [])" "rtdb_order env req"]
      create_updates_local_index [of db env "js_or (req_body req) (JObj [])" "rtdb_order env req"]
    by (simp add: create_updates_order create_updates_status_index rtdb_order_fields
        rtdb_order_exists snapshot_exists_def req_field_def)
next
  assume a: "res_status (fst (createOrderDelivery_fs fenv st req)) = 200
       \<and> inj_on (\<lambda>i. autoId fenv (2 * i)) {0..<length (fs_orders req)}
       \<and> (\<forall>i<length (fs_orders req). \<forall>h.
             st [''ordersDelivery'', autoId fenv (2 * i), ''history'', h] = None)"
  let ?n = "length (fs_orders req)"
  from a have inj: "inj_on (\<lambda>i. autoId fenv (2 * i)) {0..<0 + ?n}" by simp
  from a have fresh: "\<And>i h. i < ?n \<Longrightarrow>
      st [''ordersDelivery'', autoId fenv (2 * i), ''history'', h] = None" by blast
  from a create_fs_ok [of fenv st req] obtain ids ws where
    l: "orders_loop fenv (fs_userId req) 0 (fs_orders req) = Inr (ids, ws)"
    and r: "createOrderDelivery_fs fenv st req
              = (Response 200 (JObj [(''ok'', JBool True), (''orderIds'', JArr (map JStr ids))]),
                 commit st ws)"
    by blast
  from a have ne: "fs_orders req \<noteq> []"
    by (auto simp add: createOrderDelivery_fs_def fs_orders_def req_field_def Let_def
        split: if_splits)
  from orders_loop_ids [OF l] have ids: "ids = map (\<lambda>i. autoId fenv (2 * i)) [0..<?n]"
    by simp
  note c = orders_loop_commit [OF l, of st]
  from c have ch: "\<And>i. i < ?n \<Longrightarrow> commit st ws (history_path fenv i) = Some (created_entry fenv)"
    by (metis add_0)
  from c inj have co: "\<And>i. i < ?n \<Longrightarrow> commit st ws (order_path fenv i)
      = Some (order_doc fenv (fs_userId req) (autoId fenv (2 * i)) (fs_orders req ! i))"
    by (metis add_0)
  from c have cq: "\<And>q. (\<And>i. i < ?n \<Longrightarrow> q \<noteq> order_path fenv i \<and> q \<noteq> history_path fenv i)
      \<Longrightarrow> commit st ws q = st q"
    by (metis add_0)
  have hist: "commit st ws [''ordersDelivery'', autoId fenv (2 * i), ''history'', h]
               = (if h = autoId fenv (2 * i + 1) then Some (created_entry fenv) else None)"
    if i: "i < ?n" for i h
  proof (cases "h = autoId fenv (2 * i + 1)")
    case True
    with ch [OF i] show ?thesis by (simp add: history_path_def)
  next
    case False
    let ?q = "[''ordersDelivery'', autoId fenv (2 * i), ''history'', h]"
    have "?q \<noteq> order_path fenv j \<and> ?q \<noteq> history_path fenv j" if j: "j < ?n" for j
    proof -
      have "?q \<noteq> history_path fenv j"
      proof
        assume e: "?q = history_path fenv j"
        then have "autoId fenv (2 * i) = autoId fenv (2 * j)"
          by (simp add: history_path_def)
        with inj i j have "i = j" by (auto dest: inj_onD)
        with e False show False by (simp add: history_path_def)
      qed
      then show ?thesis by (simp add: order_path_def)
    qed
    then have "commit st ws ?q = st ?q" by (rule cq)
    with fresh [OF i] False show ?thesis by simp
  qed
  show "let st' = snd (createOrderDelivery_fs fenv st req) in
       res_json (fst (createOrderDelivery_fs fenv st req))
         = JObj [(''ok'', JBool True),
                 (''orderIds'', JArr (map (\<lambda>i. JStr (autoId fenv (2 * i)))
                                        [0..<length (fs_orders req)]))]
       \<and> fs_orders req \<noteq> []
       \<and> (\<forall>i<length (fs_orders req).
             (\<exists>d. st' [''ordersDelivery'', autoId fenv (2 * i)] = Some d
                \<and> get_prop (JObj d) ''id'' = JStr (autoId fenv (2 * i))
                \<and> get_prop (JObj d) ''status'' = JStr ''created'')
             \<and> (\<forall>h. st' [''ordersDelivery'', autoId fenv (2 * i), ''history'', h]
                     = (if h = autoId fenv (2 * i + 1) then Some (created_entry fenv) else None)))
       \<and> (\<forall>q. (\<forall>i<length (fs_orders req). q \<noteq> order_path fenv i \<and> q \<noteq> history_path fenv i)
              \<longrightarrow> st' q = st q)"
    unfolding r Let_def fst_conv snd_conv
    using ne hist cq co
    by (simp add: ids comp_def order_path_def order_doc_fields)
qed

lemma intake_requests_evaluated:
  "res_status (fst (createOrderDelivery_rtdb env1 JNull
      (Request ''POST'' (intake_body 19.4 [(''productName'', JStr ''Taco'')])))) = 200"
  "req_field (Request ''POST'' (intake_body 19.4 [(''productName'', JStr ''Taco'')])) ''userId''
     = JStr ''u1''"
  "req_field (Request ''POST'' (intake_body 19.4 [(''productName'', JStr ''Taco'')])) ''localId''
     = JStr ''L1''"
  by (simp_all add: createOrderDelivery_rtdb_def intake_body_def js_or_def num_def req_field_def
      normalize_item_def str_or_def num_or0_def item_invalid_def calcTotals_def Let_def env1_def)

lemma fs_intake_orders:
  "fs_orders (Request ''POST'' (fs_intake_body lat q t))
   = [JObj [(''bussineId'', JStr ''L1''), (''bussineZoneId'', JStr ''Z1''),
            (''bussineLocation'', JObj [(''lat'', num lat), (''long'', num (- 99.1))]),
            (''items'', JArr [JObj [(''productID'', JStr ''p1''), (''quantity'', q),
                                    (''infoProduct'', JObj [(''precio'', num 50)]),
                                    (''total'', t)]])]]"
  by (simp add: fs_orders_def fs_intake_body_def req_field_def js_or_def js_nullish_def nullish_def)

lemma fs_intake_accepted:
  "res_status (fst (createOrderDelivery_fs fenv st
      (Request ''POST'' (fs_intake_body lat (num 2) (num t))))) = (if t < 0 then 400 else 200)"
  by (simp add: createOrderDelivery_fs_def fs_intake_body_def js_or_def js_nullish_def nullish_def
      num_def order_turn_def str_nn_def num_nn0_def pickProductFields_def Let_def)

lemma fenv1_ids [simp]: "autoId fenv1 0 = ''a0''" "autoId fenv1 (Suc 0) = ''a1''"
  by (simp_all add: fenv1_def dec_nat.simps digit_char_def)

theorem created_order_is_stored_witness:
  "in_index (snd (createOrderDelivery_rtdb env1 JNull
       (Request ''POST'' (intake_body 19.4 [(''productName'', JStr ''Taco'')]))))
     ''ordersDeliveryByUser'' ''u1'' ''o2''
   \<and> in_index (snd (createOrderDelivery_rtdb env1 JNull
       (Request ''POST'' (intake_body 19.4 [(''productName'', JStr ''Taco'')]))))
     ''ordersDeliveryByStatus'' ''created'' ''o2''
   \<and> res_json (fst (createOrderDelivery_fs fenv1 Map.empty
       (Request ''POST'' (fs_intake_body 19.4 (num 2) (num 100)))))
     = JObj [(''ok'', JBool True), (''orderIds'', JArr [JStr ''a0''])]
   \<and> snd (createOrderDelivery_fs fenv1 Map.empty
       (Request ''POST'' (fs_intake_body 19.4 (num 2) (num 100))))
       [''ordersDelivery'', ''a0'', ''history'', ''a1''] = Some (created_entry fenv1)"
proof -
  let ?req = "Request ''POST'' (intake_body 19.4 [(''productName'', JStr ''Taco'')])"
  let ?freq = "Request ''POST'' (fs_intake_body 19.4 (num 2) (num 100))"
  have k: "pushOrderKey env1 = ''o2''" by (simp add: env1_def)
  from created_order_is_stored [of env1 JNull ?req] intake_requests_evaluated(1)
  have "let db' = snd (createOrderDelivery_rtdb env1 JNull ?req); oid = pushOrderKey env1 in
       res_json (fst (createOrderDelivery_rtdb env1 JNull ?req))
         = JObj [(''ok'', JBool True), (''orderId'', JStr oid)]
       \<and> snapshot_exists (order_node db' oid)
       \<and> get_prop (order_node db' oid) ''id'' = JStr oid
       \<and> get_prop (order_node db' oid) ''status'' = JStr ''created''
       \<and> in_index db' ''ordersDeliveryByUser'' (String_js (req_field ?req ''userId'')) oid
       \<and> in_index db' ''ordersDeliveryByLocal'' (String_js (req_field ?req ''localId'')) oid
       \<and> in_index db' ''ordersDeliveryByStatus'' ''created'' oid
       \<and> get_prop (order_node db' oid) ''history''
           = JObj [(pushHistoryKey env1,
                    JObj [(''status'', JStr ''created''), (''at'', nowTs env1),
                          (''by'', JStr ''user'')])]"
    by blast
  then have a: "in_index (snd (createOrderDelivery_rtdb env1 JNull ?req))
                  ''ordersDeliveryByUser'' ''u1'' ''o2''
              \<and> in_index (snd (createOrderDelivery_rtdb env1 JNull ?req))
                  ''ordersDeliveryByStatus'' ''created'' ''o2''"
    unfolding Let_def k intake_requests_evaluated by simp
  have "res_status (fst (createOrderDelivery_fs fenv1 Map.empty ?freq)) = 200
       \<and> inj_on (\<lambda>i. autoId fenv1 (2 * i)) {0..<length (fs_orders ?freq)}
       \<and> (\<forall>i<length (fs_orders ?freq). \<forall>h.
             Map.empty [''ordersDelivery'', autoId fenv1 (2 * i), ''history'', h] = None)"
    by (simp add: fs_intake_accepted fs_intake_orders)
  with created_order_is_stored [of _ _ ?freq fenv1 Map.empty]
  have "let st' = snd (createOrderDelivery_fs fenv1 Map.empty ?freq) in
       res_json (fst (createOrderDelivery_fs fenv1 Map.empty ?freq))
         = JObj [(''ok'', JBool True),
                 (''orderIds'', JArr (map (\<lambda>i. JStr (autoId fenv1 (2 * i)))
                                        [0..<length (fs_orders ?freq)]))]
       \<and> fs_orders ?freq \<noteq> []
       \<and> (\<forall>i<length (fs_orders ?freq).
             (\<exists>d. st' [''ordersDelivery'', autoId fenv1 (2 * i)] = Some d
                \<and> get_prop (JObj d) ''id'' = JStr (autoId fenv1 (2 * i))
                \<and> get_prop (JObj d) ''status'' = JStr ''created'')
             \<and> (\<forall>h. st' [''ordersDelivery'', autoId fenv1 (2 * i), ''history'', h]
                     = (if h = autoId fenv1 (2 * i + 1) then Some (created_entry fenv1) else None)))
       \<and> (\<forall>q. (\<forall>i<length (fs_orders ?freq). q \<noteq> order_path fenv1 i \<and> q \<noteq> history_path fenv1 i)
              \<longrightarrow> st' q = Map.empty q)"
    by blast
  then have b: "res_json (fst (createOrderDelivery_fs fenv1 Map.empty ?freq))
                  = JObj [(''ok'', JBool True), (''orderIds'', JArr [JStr ''a0''])]
              \<and> snd (createOrderDelivery_fs fenv1 Map.empty ?freq)
                  [''ordersDelivery'', ''a0'', ''history'', ''a1''] = Some (created_entry fenv1)"
    unfolding Let_def fs_intake_orders by simp
  from a b show ?thesis by blast
qed

text \<open>
  The claim as written also asks the document-store handler for index entries. It
  writes none: after a successful intake into the empty store, the store holds the
  order and its history entry and nothing else.
\<close>

theorem create_fs_writes_no_index_entry:
  "res_json (fst (createOrderDelivery_fs fenv1 Map.empty
       (Request ''POST'' (fs_intake_body 19.4 (num 2) (num 100)))))
     = JObj [(''ok'', JBool True), (''orderIds'', JArr [JStr ''a0''])]
   \<and> dom (snd (createOrderDelivery_fs fenv1 Map.empty
       (Request ''POST'' (fs_intake_body 19.4 (num 2) (num 100)))))
     = {[''ordersDelivery'', ''a0''], [''ordersDelivery'', ''a0'', ''history'', ''a1'']}
   \<and> snd (createOrderDelivery_fs fenv1 Map.empty
       (Request ''POST'' (fs_intake_body 19.4 (num 2) (num 100))))
       [''ordersDeliveryByUser'', ''u1'', ''a0''] = None"
proof -
  let ?freq = "Request ''POST'' (fs_intake_body 19.4 (num 2) (num 100))"
  let ?ord = "JObj [(''bussineId'', JStr ''L1''), (''bussineZoneId'', JStr ''Z1''),
            (''bussineLocation'', JObj [(''lat'', num 19.4), (''long'', num (- 99.1))]),
            (''items'', JArr [JObj [(''productID'', JStr ''p1''), (''quantity'', num 2),
                                    (''infoProduct'', JObj [(''precio'', num 50)]),
                                    (''total'', num 100)]])]"
  have r: "createOrderDelivery_fs fenv1 Map.empty ?freq
          = (Response 200 (JObj [(''ok'', JBool True), (''orderIds'', JArr [JStr ''a0''])]),
             [[''ordersDelivery'', ''a0''] \<mapsto> order_doc fenv1 ''u1'' ''a0'' ?ord,
              [''ordersDelivery'', ''a0'', ''history'', ''a1''] \<mapsto> created_entry fenv1])"
    by (simp add: createOrderDelivery_fs_def fs_intake_body_def js_or_def js_nullish_def
        nullish_def num_def order_turn_def str_nn_def num_nn0_def pickProductFields_def Let_def
        commit_def created_entry_def)
  show ?thesis unfolding r by auto
qed

subsection \<open>The totals on finite numbers\<close>











section \<open>Intake: the totals\<close>






subsection \<open>The item checks\<close>














section \<open>Intake: an item with a quantity that is not positive\<close>




lemma dec_nat_digits [simp]: "dec_nat 0 = ''0''" "dec_nat (Suc (Suc 0)) = ''2''"
  by (simp_all add: dec_nat.simps digit_char_def)



subsection \<open>The status index along a run\<close>







subsection \<open>The documents along a run\<close>





section \<open>The status index in every reachable store\<close>




end
